theory Spec2Isabelle
  imports Main "HOL-Library.Sublist"
begin

section \<open>The headless engine's page: data model\<close>

text \<open>
  This theory embeds \<^verbatim>\<open>v2/pkg/protocols/headless/engine/page.go\<close>: the \<^verbatim>\<open>Page\<close>
  struct, \<^verbatim>\<open>Instance.Run\<close>, \<^verbatim>\<open>Page.Close\<close>, \<^verbatim>\<open>Page.URL\<close>, the history and
  interactsh ledgers, and the three predicates that choose between request-stage and
  response-stage hijacking.

  Conventions of the embedding.
  \<^item> A Go \<^verbatim>\<open>error\<close> is a value of type \<open>error\<close>; a call returning \<^verbatim>\<open>(T, error)\<close> where
    only one of the two is meaningful is a sum \<open>error + T\<close>, a call returning only
    \<^verbatim>\<open>error\<close> is an \<open>error option\<close> (\<open>None\<close> is \<^verbatim>\<open>nil\<close>).
  \<^item> A pointer that the code tests against \<^verbatim>\<open>nil\<close> is an \<open>option\<close>; a pointer that the
    code dereferences without a test (\<^verbatim>\<open>p.page\<close>, the elements of \<^verbatim>\<open>actions\<close>) is the
    object itself.
  \<^item> A method with a pointer receiver takes the \<open>Page\<close> and gives back the \<open>Page\<close> it
    leaves behind.
  \<^item> The browser driver (go-rod) and the action pipeline are outside this file. What they
    answer is a parameter of the model, the record \<open>Driver\<close>; what is asked of them is
    recorded, in program order, as a list of \<open>call\<close>s.
  \<^item> \<^verbatim>\<open>p.mutex\<close> brackets the whole body of \<^verbatim>\<open>DumpHistory\<close>, \<^verbatim>\<open>addToHistory\<close> and
    \<^verbatim>\<open>addInteractshURL\<close> (lock on entry, deferred unlock). Each of these bodies is
    therefore one atomic step on the \<open>Page\<close> as it is when the lock is granted, and is
    modelled as such; the lock is held by nobody before and after the step.
\<close>

datatype error = Error string

text \<open>
  Modelled from the spec: the declaration of \<^verbatim>\<open>ActionType\<close> is not part of the source
  file. It is a closed enumeration: the five mutating kinds that
  \<^verbatim>\<open>containsAnyModificationActionType\<close> names, and the non-mutating kinds of the action
  pipeline (navigate, click, and the others, here indexed by a number).
\<close>

datatype ActionType =
    ActionSetMethod
  | ActionAddHeader
  | ActionSetHeader
  | ActionDeleteHeader
  | ActionSetBody
  | ActionNavigate
  | ActionClick
  | ActionOther nat

text \<open>
  Of \<^verbatim>\<open>rule\<close> and \<^verbatim>\<open>Action\<close> the source file reads one field each: \<^verbatim>\<open>rule.Action\<close>, an
  \<^verbatim>\<open>ActionType\<close>, and \<^verbatim>\<open>action.ActionType.ActionType\<close>, the \<^verbatim>\<open>ActionType\<close> held by an
  action.
\<close>

record rule =
  Action :: ActionType

record Action =
  ActionType :: ActionType

text \<open>The handles of the driver: a tab, a request-stage router, a native hijack.\<close>

record rodPage =
  targetID :: nat
  timeout :: "int option"

datatype RequestStage = FetchRequestStageRequest | FetchRequestStageResponse

record FetchRequestPattern =
  URLPattern :: string
  RequestStage :: RequestStage

record HijackRouter =
  router_page :: rodPage
  router_patterns :: "(string \<times> string) list"

record Hijack =
  hijack_page :: rodPage
  hijack_pattern :: "FetchRequestPattern option"

record TargetInfo =
  Title :: string
  URL :: string

record Browser =
  customAgent :: string

record Instance =
  engine :: nat
  browser :: Browser

record RWMutex =
  readerCount :: nat
  writerHeld :: bool

datatype iface = IString string | IInt int | IBool bool | INil

record HistoryData =
  RawRequest :: string
  RawResponse :: string

record Page =
  page :: rodPage
  rules :: "rule list"
  inst :: Instance
  hijackRouter :: "HijackRouter option"
  hijackNative :: "Hijack option"
  mutex :: RWMutex
  History :: "HistoryData list"
  InteractshURLs :: "string list"
  payloads :: "string \<rightharpoonup> iface"

section \<open>The ledgers\<close>

text \<open>
  \<^verbatim>\<open>DumpHistory\<close>: the loop writes, for each entry in order, the request and then the
  response to a \<^verbatim>\<open>strings.Builder\<close>, here the accumulator.
\<close>

fun DumpHistory_loop :: "HistoryData list \<Rightarrow> string \<Rightarrow> string" where
  "DumpHistory_loop [] historyDump = historyDump"
| "DumpHistory_loop (historyData # rest) historyDump =
     DumpHistory_loop rest ((historyDump @ RawRequest historyData) @ RawResponse historyData)"

definition DumpHistory :: "Page \<Rightarrow> string \<times> Page" where
  "DumpHistory p = (DumpHistory_loop (History p) [], p)"

definition addToHistory :: "Page \<Rightarrow> HistoryData list \<Rightarrow> Page" where
  "addToHistory p historyData = p\<lparr>History := History p @ historyData\<rparr>"

definition addInteractshURL :: "Page \<Rightarrow> string list \<Rightarrow> Page" where
  "addInteractshURL p URLs = p\<lparr>InteractshURLs := InteractshURLs p @ URLs\<rparr>"

section \<open>The predicates of the hijack decision\<close>

fun containsAnyModificationActionType :: "ActionType list \<Rightarrow> bool" where
  "containsAnyModificationActionType [] = False"
| "containsAnyModificationActionType (actionType # rest) =
     (case actionType of
        ActionSetMethod \<Rightarrow> True
      | ActionAddHeader \<Rightarrow> True
      | ActionSetHeader \<Rightarrow> True
      | ActionDeleteHeader \<Rightarrow> True
      | ActionSetBody \<Rightarrow> True
      | _ \<Rightarrow> containsAnyModificationActionType rest)"

fun hasModificationRules_loop :: "rule list \<Rightarrow> bool" where
  "hasModificationRules_loop [] = False"
| "hasModificationRules_loop (r # rest) =
     (if containsAnyModificationActionType [Action r] then True
      else hasModificationRules_loop rest)"

definition hasModificationRules :: "Page \<Rightarrow> bool" where
  "hasModificationRules p = hasModificationRules_loop (rules p)"

fun containsModificationActions :: "Action list \<Rightarrow> bool" where
  "containsModificationActions [] = False"
| "containsModificationActions (action # rest) =
     (if containsAnyModificationActionType [ActionType action] then True
      else containsModificationActions rest)"

section \<open>The driver and the calls made to it\<close>

text \<open>
  The answers of the external collaborators, one field for each call of the source that
  can fail or that yields a value: \<^verbatim>\<open>i.engine.Page\<close>, \<^verbatim>\<open>page.SetUserAgent\<close>,
  \<^verbatim>\<open>hijackRouter.Add\<close>, \<^verbatim>\<open>page.SetViewport\<close>, \<^verbatim>\<open>page.SetExtraHeaders\<close>,
  \<^verbatim>\<open>createdPage.ExecuteActions\<close> (a method of \<^verbatim>\<open>Page\<close> defined in another file: it may
  change the page it runs on, and while it runs the hijack handlers fill the ledgers),
  the two \<^verbatim>\<open>Stop\<close>s, \<^verbatim>\<open>page.Close\<close> and \<^verbatim>\<open>page.Info\<close>.
\<close>

record Driver =
  engine_Page :: "error + rodPage"
  page_SetUserAgent :: "error option"
  router_Add :: "error option"
  page_SetViewport :: "error option"
  page_SetExtraHeaders :: "error option"
  ExecuteActions ::
    "Page \<Rightarrow> string \<Rightarrow> Action list \<Rightarrow> Page \<times> (string \<rightharpoonup> string) option \<times> error option"
  router_Stop :: "error option"
  hijack_Stop :: "error option"
  page_Close :: "error option"
  page_Info :: "error + TargetInfo"

text \<open>
  What the code asks of the driver, in program order. \<open>GoRouterRun\<close> is
  \<^verbatim>\<open>go hijackRouter.Run()\<close> and \<open>GoHijackHandler\<close> is
  \<^verbatim>\<open>go func() { _ = hijackRouterHandler() }()\<close>: the two statements that start a
  background interception loop.
\<close>

datatype call =
    CallEnginePage
  | CallSetUserAgent string
  | CallHijackRequests
  | CallRouterAdd string string
  | GoRouterRun
  | CallNewHijack
  | CallSetPattern FetchRequestPattern
  | CallHijackStart
  | GoHijackHandler
  | CallSetViewport int int int
  | CallSetExtraHeaders "string list"
  | CallExecuteActions string "Action list"
  | CallRouterStop
  | CallHijackStop
  | CallPageClose
  | CallPageInfo

section \<open>Run\<close>

definition Timeout :: "rodPage \<Rightarrow> int \<Rightarrow> rodPage" where
  "Timeout pg d = pg\<lparr>timeout := Some d\<rparr>"

text \<open>
  The struct literal of \<^verbatim>\<open>Run\<close>:
  \<^verbatim>\<open>&Page{page: page, instance: i, mutex: &sync.RWMutex{}, payloads: payloads}\<close>.
  Every field it does not name has its zero value.
\<close>

definition newPage :: "rodPage \<Rightarrow> Instance \<Rightarrow> (string \<rightharpoonup> iface) \<Rightarrow> Page" where
  "newPage pg i pl =
     \<lparr>page = pg, rules = [], inst = i, hijackRouter = None, hijackNative = None,
      mutex = \<lparr>readerCount = 0, writerHeld = False\<rparr>, History = [], InteractshURLs = [],
      payloads = pl\<rparr>"

text \<open>
  The \<^verbatim>\<open>if\<close>/\<^verbatim>\<open>else\<close> of \<^verbatim>\<open>Run\<close> that installs a hijack on the created page. It
  yields the error of \<^verbatim>\<open>hijackRouter.Add\<close>, or the page with the handle stored.
\<close>

definition Run_hijack :: "Driver \<Rightarrow> Page \<Rightarrow> Action list \<Rightarrow> (error + Page) \<times> call list" where
  "Run_hijack d createdPage actions =
     (if hasModificationRules createdPage \<or> containsModificationActions actions then
        (let hijackRouter0 = \<lparr>router_page = page createdPage, router_patterns = []\<rparr> in
         case router_Add d of
           Some err \<Rightarrow> (Inl err, [CallHijackRequests, CallRouterAdd ''*'' ''''])
         | None \<Rightarrow>
             (Inr (createdPage\<lparr>hijackRouter :=
                     Some (hijackRouter0\<lparr>router_patterns := [(''*'', '''')]\<rparr>)\<rparr>),
              [CallHijackRequests, CallRouterAdd ''*'' '''', GoRouterRun]))
      else
        (let pattern = \<lparr>URLPattern = ''*'', RequestStage = FetchRequestStageResponse\<rparr>;
             hijackRouter0 = \<lparr>hijack_page = page createdPage, hijack_pattern = Some pattern\<rparr>
         in (Inr (createdPage\<lparr>hijackNative := Some hijackRouter0\<rparr>),
             [CallNewHijack, CallSetPattern pattern, CallHijackStart, GoHijackHandler])))"

type_synonym RunResult = "(string \<rightharpoonup> string) option \<times> Page option \<times> error option"

definition Run ::
  "Driver \<Rightarrow> Instance \<Rightarrow> string \<Rightarrow> Action list \<Rightarrow> (string \<rightharpoonup> iface) \<Rightarrow> int
     \<Rightarrow> RunResult \<times> call list" where
  "Run d i baseURL actions pl tmo =
     (case engine_Page d of
        Inl err \<Rightarrow> ((None, None, Some err), [CallEnginePage])
      | Inr page0 \<Rightarrow>
          (let pg = Timeout page0 tmo;
               tr1 = CallEnginePage #
                 (if customAgent (browser i) \<noteq> [] then [CallSetUserAgent (customAgent (browser i))]
                  else [])
           in case (if customAgent (browser i) \<noteq> [] then page_SetUserAgent d else None) of
                Some userAgentErr \<Rightarrow> ((None, None, Some userAgentErr), tr1)
              | None \<Rightarrow>
                  (case Run_hijack d (newPage pg i pl) actions of
                     (Inl err, tr2) \<Rightarrow> ((None, None, Some err), tr1 @ tr2)
                   | (Inr createdPage, tr2) \<Rightarrow>
                       (let tr3 = tr1 @ tr2 @ [CallSetViewport 1 1920 1080] in
                        case page_SetViewport d of
                          Some err \<Rightarrow> ((None, None, Some err), tr3)
                        | None \<Rightarrow>
                            (let tr4 = tr3 @
                               [CallSetExtraHeaders [''Accept-Language'', ''en, en-GB, en-us;'']]
                             in case page_SetExtraHeaders d of
                                  Some err \<Rightarrow> ((None, None, Some err), tr4)
                                | None \<Rightarrow>
                                    (let tr5 = tr4 @ [CallExecuteActions baseURL actions] in
                                     case ExecuteActions d createdPage baseURL actions of
                                       (createdPage', data, Some err) \<Rightarrow>
                                         ((None, None, Some err), tr5)
                                     | (createdPage', data, None) \<Rightarrow>
                                         ((data, Some createdPage', None), tr5)))))))"

text \<open>The calls \<^verbatim>\<open>Run\<close> has made when it reaches the hijack decision.\<close>

definition setup_calls :: "Instance \<Rightarrow> call list" where
  "setup_calls i = CallEnginePage #
     (if customAgent (browser i) \<noteq> [] then [CallSetUserAgent (customAgent (browser i))] else [])"

section \<open>Close and URL\<close>

text \<open>
  \<^verbatim>\<open>Close\<close> has no result. The two \<^verbatim>\<open>Stop\<close>s are assigned to the blank identifier and
  the result of \<^verbatim>\<open>p.page.Close()\<close> is dropped; no field of the page is written.
\<close>

definition Close :: "Driver \<Rightarrow> Page \<Rightarrow> Page \<times> call list" where
  "Close d p =
     (let tr1 = (case hijackRouter p of
                   Some r \<Rightarrow> (let _ = router_Stop d in [CallRouterStop])
                 | None \<Rightarrow> []);
          tr2 = (case hijackNative p of
                   Some h \<Rightarrow> (let _ = hijack_Stop d in [CallHijackStop])
                 | None \<Rightarrow> []);
          _ = page_Close d
      in (p, tr1 @ tr2 @ [CallPageClose]))"

definition URL :: "Driver \<Rightarrow> Page \<Rightarrow> string \<times> Page" where
  "URL d p =
     (case page_Info d of
        Inl err \<Rightarrow> ('''', p)
      | Inr info \<Rightarrow> (TargetInfo.URL info, p))"

section \<open>Sequences of calls on one page\<close>

text \<open>
  A caller holding a \<^verbatim>\<open>*Page\<close> can call its methods in any order, each on the page the
  previous one left. \<open>perform_all\<close> runs such a sequence; \<open>Close_repeat\<close> calls
  \<^verbatim>\<open>Close\<close> once for each driver answer of a list and collects the calls made.
\<close>

datatype PageCall =
    DoDumpHistory
  | DoAddToHistory "HistoryData list"
  | DoAddInteractshURL "string list"
  | DoURL Driver
  | DoClose Driver

fun perform :: "PageCall \<Rightarrow> Page \<Rightarrow> Page" where
  "perform DoDumpHistory p = snd (DumpHistory p)"
| "perform (DoAddToHistory historyData) p = addToHistory p historyData"
| "perform (DoAddInteractshURL URLs) p = addInteractshURL p URLs"
| "perform (DoURL d) p = snd (URL d p)"
| "perform (DoClose d) p = fst (Close d p)"

fun perform_all :: "PageCall list \<Rightarrow> Page \<Rightarrow> Page" where
  "perform_all [] p = p"
| "perform_all (c # cs) p = perform_all cs (perform c p)"

fun Close_repeat :: "Driver list \<Rightarrow> Page \<Rightarrow> Page \<times> call list" where
  "Close_repeat [] p = (p, [])"
| "Close_repeat (d # ds) p =
     (case Close d p of (p', tr) \<Rightarrow>
        (case Close_repeat ds p' of (p'', tr') \<Rightarrow> (p'', tr @ tr')))"

section \<open>The selection rule as the specification words it\<close>

text \<open>
  The specification names two modes and one rule: \<open>RuleHijack\<close> if any declared rule or
  any supplied action has a mutating action type (set method, add, set or delete header,
  set body), \<open>PassiveHijack\<close> otherwise. \<open>spec_mode\<close> is that rule, written from the
  specification; the theorems compare it with the branch \<open>Run_hijack\<close> takes.
\<close>

datatype HijackMode = RuleHijack | PassiveHijack

definition spec_mutating :: "ActionType list" where
  "spec_mutating =
     [ActionSetMethod, ActionAddHeader, ActionSetHeader, ActionDeleteHeader, ActionSetBody]"

definition spec_mode :: "rule list \<Rightarrow> Action list \<Rightarrow> HijackMode" where
  "spec_mode rs acts =
     (if (\<exists>r \<in> set rs. Action r \<in> set spec_mutating)
         \<or> (\<exists>a \<in> set acts. ActionType a \<in> set spec_mutating)
      then RuleHijack else PassiveHijack)"

section \<open>Concrete drivers, pages and actions\<close>

definition tab1 :: rodPage where
  "tab1 = \<lparr>targetID = 1, timeout = None\<rparr>"

definition plain_instance :: Instance where
  "plain_instance = \<lparr>engine = 0, browser = \<lparr>customAgent = ''''\<rparr>\<rparr>"

definition agent_instance :: Instance where
  "agent_instance = \<lparr>engine = 0, browser = \<lparr>customAgent = ''scanner/1.0''\<rparr>\<rparr>"

definition no_payloads :: "string \<rightharpoonup> iface" where
  "no_payloads = Map.empty"

definition exchange1 :: HistoryData where
  "exchange1 = \<lparr>RawRequest = ''GET / HTTP/1.1'', RawResponse = ''HTTP/1.1 200 OK''\<rparr>"

definition exchange2 :: HistoryData where
  "exchange2 = \<lparr>RawRequest = ''GET /a HTTP/1.1'', RawResponse = ''HTTP/1.1 404 Not Found''\<rparr>"

definition navigate :: Action where
  "navigate = \<lparr>ActionType = ActionNavigate\<rparr>"

definition setheader :: Action where
  "setheader = \<lparr>ActionType = ActionSetHeader\<rparr>"

definition no_results :: "string \<rightharpoonup> string" where
  "no_results = Map.empty"

text \<open>A pipeline that records one exchange and succeeds, and one that records it and fails.\<close>

definition pipeline_ok ::
  "Page \<Rightarrow> string \<Rightarrow> Action list \<Rightarrow> Page \<times> (string \<rightharpoonup> string) option \<times> error option" where
  "pipeline_ok p baseURL actions = (addToHistory p [exchange1], Some no_results, None)"

definition pipeline_fails ::
  "Page \<Rightarrow> string \<Rightarrow> Action list \<Rightarrow> Page \<times> (string \<rightharpoonup> string) option \<times> error option" where
  "pipeline_fails p baseURL actions =
     (addToHistory p [exchange1], None, Some (Error ''action failed''))"

definition driver_ok :: Driver where
  "driver_ok =
     \<lparr>engine_Page = Inr tab1, page_SetUserAgent = None, router_Add = None,
      page_SetViewport = None, page_SetExtraHeaders = None, ExecuteActions = pipeline_ok,
      router_Stop = None, hijack_Stop = None, page_Close = None,
      page_Info = Inr \<lparr>Title = ''Home'', URL = ''http://target.example/''\<rparr>\<rparr>"

definition driver_failing_teardown :: Driver where
  "driver_failing_teardown =
     driver_ok\<lparr>router_Stop := Some (Error ''stop''), hijack_Stop := Some (Error ''stop''),
       page_Close := Some (Error ''close''), page_Info := Inl (Error ''no target'')\<rparr>"

definition driver_no_tab :: Driver where
  "driver_no_tab = driver_ok\<lparr>engine_Page := Inl (Error ''no tab'')\<rparr>"

definition driver_bad_agent :: Driver where
  "driver_bad_agent = driver_ok\<lparr>page_SetUserAgent := Some (Error ''agent'')\<rparr>"

definition driver_bad_router :: Driver where
  "driver_bad_router = driver_ok\<lparr>router_Add := Some (Error ''add'')\<rparr>"

definition driver_bad_viewport :: Driver where
  "driver_bad_viewport = driver_ok\<lparr>page_SetViewport := Some (Error ''viewport'')\<rparr>"

definition driver_bad_headers :: Driver where
  "driver_bad_headers = driver_ok\<lparr>page_SetExtraHeaders := Some (Error ''headers'')\<rparr>"

definition driver_bad_pipeline :: Driver where
  "driver_bad_pipeline = driver_ok\<lparr>ExecuteActions := pipeline_fails\<rparr>"

definition session1 :: Page where
  "session1 = (newPage tab1 plain_instance no_payloads)\<lparr>History := [exchange1, exchange2],
     InteractshURLs := [''abc.oast.example'']\<rparr>"

text \<open>The page \<^verbatim>\<open>Run\<close> has built for \<open>tab1\<close> with timeout 5 once the native hijack is stored.\<close>

definition native_session :: Page where
  "native_session =
     (newPage (Timeout tab1 5) plain_instance no_payloads)\<lparr>hijackNative :=
        Some \<lparr>hijack_page = Timeout tab1 5, hijack_pattern =
          Some \<lparr>URLPattern = ''*'', RequestStage = FetchRequestStageResponse\<rparr>\<rparr>\<rparr>"

definition router_session :: Page where
  "router_session =
     (newPage (Timeout tab1 5) plain_instance no_payloads)\<lparr>hijackRouter :=
        Some \<lparr>router_page = Timeout tab1 5, router_patterns = [(''*'', [])]\<rparr>\<rparr>"

section \<open>The hijack decision\<close>

text \<open>
  The three loops of the source return at the first mutating action type they meet, so
  each holds exactly when some element is one of the five mutating kinds.
\<close>

lemma containsAnyModificationActionType_iff:
  "containsAnyModificationActionType ts \<longleftrightarrow> (\<exists>t \<in> set ts. t \<in> set spec_mutating)"
  by (induction ts) (auto simp: spec_mutating_def split: ActionType.splits)

lemma hasModificationRules_loop_iff:
  "hasModificationRules_loop rs \<longleftrightarrow> (\<exists>r \<in> set rs. Action r \<in> set spec_mutating)"
  by (induction rs) (simp_all add: containsAnyModificationActionType_iff)

lemma containsModificationActions_iff:
  "containsModificationActions acts \<longleftrightarrow> (\<exists>a \<in> set acts. ActionType a \<in> set spec_mutating)"
  by (induction acts) (simp_all add: containsAnyModificationActionType_iff)

lemma decision_is_spec_mode:
  "(hasModificationRules p \<or> containsModificationActions actions)
     \<longleftrightarrow> spec_mode (rules p) actions = RuleHijack"
  by (simp add: spec_mode_def hasModificationRules_def hasModificationRules_loop_iff
      containsModificationActions_iff)

lemma spec_mode_Passive: "spec_mode rs acts = PassiveHijack \<longleftrightarrow> spec_mode rs acts \<noteq> RuleHijack"
  by (cases "spec_mode rs acts") simp_all

lemma Run_hijack_rule:
  assumes "hasModificationRules p \<or> containsModificationActions actions"
  shows "Run_hijack d p actions =
        (case router_Add d of
           Some err \<Rightarrow> (Inl err, [CallHijackRequests, CallRouterAdd ''*'' ''''])
         | None \<Rightarrow>
             (Inr (p\<lparr>hijackRouter :=
                Some \<lparr>router_page = page p, router_patterns = [(''*'', '''')]\<rparr>\<rparr>),
              [CallHijackRequests, CallRouterAdd ''*'' '''', GoRouterRun]))"
  using assms by (simp add: Run_hijack_def split: option.splits)

lemma Run_hijack_native:
  assumes "\<not> (hasModificationRules p \<or> containsModificationActions actions)"
  shows "Run_hijack d p actions =
        (Inr (p\<lparr>hijackNative :=
           Some \<lparr>hijack_page = page p, hijack_pattern =
             Some \<lparr>URLPattern = ''*'', RequestStage = FetchRequestStageResponse\<rparr>\<rparr>\<rparr>),
         [CallNewHijack,
          CallSetPattern \<lparr>URLPattern = ''*'', RequestStage = FetchRequestStageResponse\<rparr>,
          CallHijackStart, GoHijackHandler])"
  using assms by (simp add: Run_hijack_def Let_def)

text \<open>
  Once the tab exists and the user agent is set (or not asked for), \<^verbatim>\<open>Run\<close> is the
  hijack installation followed by viewport, headers and pipeline, each ending the call
  when it fails.
\<close>

lemma Run_after_tab:
  assumes "engine_Page d = Inr pg"
    and "customAgent (browser i) = [] \<or> page_SetUserAgent d = None"
  shows "Run d i baseURL actions pl tmo =
    (case Run_hijack d (newPage (Timeout pg tmo) i pl) actions of
       (Inl err, tr2) \<Rightarrow> ((None, None, Some err), setup_calls i @ tr2)
     | (Inr createdPage, tr2) \<Rightarrow>
         (case page_SetViewport d of
            Some err \<Rightarrow> ((None, None, Some err),
              setup_calls i @ tr2 @ [CallSetViewport 1 1920 1080])
          | None \<Rightarrow>
             (case page_SetExtraHeaders d of
                Some err \<Rightarrow> ((None, None, Some err),
                  setup_calls i @ tr2 @ [CallSetViewport 1 1920 1080,
                    CallSetExtraHeaders [''Accept-Language'', ''en, en-GB, en-us;'']])
              | None \<Rightarrow>
                 (case ExecuteActions d createdPage baseURL actions of
                    (createdPage', data, Some err) \<Rightarrow> ((None, None, Some err),
                       setup_calls i @ tr2 @ [CallSetViewport 1 1920 1080,
                         CallSetExtraHeaders [''Accept-Language'', ''en, en-GB, en-us;''],
                         CallExecuteActions baseURL actions])
                  | (createdPage', data, None) \<Rightarrow> ((data, Some createdPage', None),
                       setup_calls i @ tr2 @ [CallSetViewport 1 1920 1080,
                         CallSetExtraHeaders [''Accept-Language'', ''en, en-GB, en-us;''],
                         CallExecuteActions baseURL actions])))))"
  using assms
  by (auto simp: Run_def setup_calls_def Let_def split: sum.splits option.splits prod.splits)

lemma Run_calls_rule:
  assumes "engine_Page d = Inr pg"
    and "customAgent (browser i) = [] \<or> page_SetUserAgent d = None"
    and "hasModificationRules (newPage (Timeout pg tmo) i pl) \<or> containsModificationActions actions"
  shows "CallHijackRequests \<in> set (snd (Run d i baseURL actions pl tmo))"
    and "CallNewHijack \<notin> set (snd (Run d i baseURL actions pl tmo))"
  unfolding Run_after_tab [OF assms(1,2)] Run_hijack_rule [OF assms(3)]
  by (simp_all add: setup_calls_def split: option.splits prod.splits)

lemma Run_calls_native:
  assumes "engine_Page d = Inr pg"
    and "customAgent (browser i) = [] \<or> page_SetUserAgent d = None"
    and "\<not> (hasModificationRules (newPage (Timeout pg tmo) i pl) \<or> containsModificationActions actions)"
  shows "CallHijackRequests \<notin> set (snd (Run d i baseURL actions pl tmo))"
    and "CallNewHijack \<in> set (snd (Run d i baseURL actions pl tmo))"
  unfolding Run_after_tab [OF assms(1,2)] Run_hijack_native [OF assms(3)]
  by (simp_all add: setup_calls_def split: option.splits prod.splits)

text \<open>
  Claim C1. The hijack installed on a page is decided by the rules the page holds and by
  the supplied actions, and by nothing else. If some rule or some action has one of the
  five mutating action types (\<open>spec_mode\<close> is \<open>RuleHijack\<close>), the request-stage router is
  created and the handler added for every URL; when that succeeds the router is stored in
  the page and its loop started, when it fails the error is returned. Otherwise
  (\<open>spec_mode\<close> is \<open>PassiveHijack\<close>) the native response-stage hijack is created, stored
  and started. In \<^verbatim>\<open>Run\<close>, whenever the tab was created and the user agent did not fail,
  the router is requested exactly when \<open>spec_mode\<close> of the created page's rules and the
  actions is \<open>RuleHijack\<close>, and the native hijack exactly when it is \<open>PassiveHijack\<close>.
\<close>

theorem hijack_mode_selection:
  "(spec_mode (rules p) actions = RuleHijack \<longrightarrow>
      Run_hijack d p actions =
        (case router_Add d of
           Some err \<Rightarrow> (Inl err, [CallHijackRequests, CallRouterAdd ''*'' ''''])
         | None \<Rightarrow>
             (Inr (p\<lparr>hijackRouter :=
                Some \<lparr>router_page = page p, router_patterns = [(''*'', '''')]\<rparr>\<rparr>),
              [CallHijackRequests, CallRouterAdd ''*'' '''', GoRouterRun])))
   \<and> (spec_mode (rules p) actions = PassiveHijack \<longrightarrow>
      Run_hijack d p actions =
        (Inr (p\<lparr>hijackNative :=
           Some \<lparr>hijack_page = page p, hijack_pattern =
             Some \<lparr>URLPattern = ''*'', RequestStage = FetchRequestStageResponse\<rparr>\<rparr>\<rparr>),
         [CallNewHijack,
          CallSetPattern \<lparr>URLPattern = ''*'', RequestStage = FetchRequestStageResponse\<rparr>,
          CallHijackStart, GoHijackHandler]))
   \<and> (\<forall>pg. engine_Page d = Inr pg
         \<and> (customAgent (browser i) = [] \<or> page_SetUserAgent d = None) \<longrightarrow>
       (CallHijackRequests \<in> set (snd (Run d i baseURL actions pl tmo)) \<longleftrightarrow>
          spec_mode (rules (newPage (Timeout pg tmo) i pl)) actions = RuleHijack)
       \<and> (CallNewHijack \<in> set (snd (Run d i baseURL actions pl tmo)) \<longleftrightarrow>
          spec_mode (rules (newPage (Timeout pg tmo) i pl)) actions = PassiveHijack))"
proof (intro conjI impI allI)
  assume "spec_mode (rules p) actions = RuleHijack"
  then have "hasModificationRules p \<or> containsModificationActions actions"
    by (simp add: decision_is_spec_mode)
  then show "Run_hijack d p actions =
        (case router_Add d of
           Some err \<Rightarrow> (Inl err, [CallHijackRequests, CallRouterAdd ''*'' ''''])
         | None \<Rightarrow>
             (Inr (p\<lparr>hijackRouter :=
                Some \<lparr>router_page = page p, router_patterns = [(''*'', '''')]\<rparr>\<rparr>),
              [CallHijackRequests, CallRouterAdd ''*'' '''', GoRouterRun]))"
    by (rule Run_hijack_rule)
next
  assume "spec_mode (rules p) actions = PassiveHijack"
  then have "\<not> (hasModificationRules p \<or> containsModificationActions actions)"
    by (simp add: decision_is_spec_mode)
  then show "Run_hijack d p actions =
        (Inr (p\<lparr>hijackNative :=
           Some \<lparr>hijack_page = page p, hijack_pattern =
             Some \<lparr>URLPattern = ''*'', RequestStage = FetchRequestStageResponse\<rparr>\<rparr>\<rparr>),
         [CallNewHijack,
          CallSetPattern \<lparr>URLPattern = ''*'', RequestStage = FetchRequestStageResponse\<rparr>,
          CallHijackStart, GoHijackHandler])"
    by (rule Run_hijack_native)
next
  fix pg
  assume a: "engine_Page d = Inr pg
         \<and> (customAgent (browser i) = [] \<or> page_SetUserAgent d = None)"
  let ?cp = "newPage (Timeout pg tmo) i pl"
  from a have tab: "engine_Page d = Inr pg"
    and ua: "customAgent (browser i) = [] \<or> page_SetUserAgent d = None"
    by simp_all
  show "CallHijackRequests \<in> set (snd (Run d i baseURL actions pl tmo)) \<longleftrightarrow>
          spec_mode (rules ?cp) actions = RuleHijack"
    using Run_calls_rule(1) [OF tab ua] Run_calls_native(1) [OF tab ua]
    unfolding decision_is_spec_mode [symmetric] by blast
  show "CallNewHijack \<in> set (snd (Run d i baseURL actions pl tmo)) \<longleftrightarrow>
          spec_mode (rules ?cp) actions = PassiveHijack"
    using Run_calls_rule(2) [OF tab ua] Run_calls_native(2) [OF tab ua]
    unfolding spec_mode_Passive decision_is_spec_mode [symmetric] by blast
qed

theorem hijack_mode_selection_witness:
  "spec_mode (rules session1) [navigate, setheader] = RuleHijack
   \<and> fst (Run_hijack driver_bad_router session1 [navigate, setheader]) = Inl (Error ''add'')
   \<and> spec_mode (rules (session1\<lparr>rules := [\<lparr>Action = ActionSetBody\<rparr>]\<rparr>)) [navigate] = RuleHijack
   \<and> snd (Run_hijack driver_ok (session1\<lparr>rules := [\<lparr>Action = ActionSetBody\<rparr>]\<rparr>) [navigate])
       = [CallHijackRequests, CallRouterAdd ''*'' '''', GoRouterRun]
   \<and> spec_mode (rules session1) [navigate] = PassiveHijack
   \<and> snd (Run_hijack driver_ok session1 [navigate])
       = [CallNewHijack,
          CallSetPattern \<lparr>URLPattern = ''*'', RequestStage = FetchRequestStageResponse\<rparr>,
          CallHijackStart, GoHijackHandler]
   \<and> engine_Page driver_ok = Inr tab1
   \<and> customAgent (browser plain_instance) = []
   \<and> CallHijackRequests \<in> set (snd (Run driver_ok plain_instance ''http://target.example/''
        [navigate, setheader] no_payloads 5))
   \<and> CallNewHijack \<in> set (snd (Run driver_ok plain_instance ''http://target.example/''
        [navigate] no_payloads 5))"
  using hijack_mode_selection [of session1 "[navigate, setheader]" driver_bad_router]
    hijack_mode_selection [of "session1\<lparr>rules := [\<lparr>Action = ActionSetBody\<rparr>]\<rparr>" "[navigate]" driver_ok]
    hijack_mode_selection [of session1 "[navigate]" driver_ok plain_instance
      "''http://target.example/''" no_payloads 5]
    hijack_mode_selection [of session1 "[navigate, setheader]" driver_ok plain_instance
      "''http://target.example/''" no_payloads 5]
  by (simp add: spec_mode_def spec_mutating_def session1_def newPage_def navigate_def
      setheader_def driver_bad_router_def driver_ok_def plain_instance_def)

section \<open>Run: the created page and the failures\<close>

lemma newPage_no_rules: "\<not> hasModificationRules (newPage pg i pl)"
  by (simp add: hasModificationRules_def newPage_def)

lemma page_newPage: "page (newPage pg i pl) = pg"
  by (simp add: newPage_def)

lemma Run_hijack_newPage:
  "Run_hijack d (newPage pg i pl) actions =
     (if containsModificationActions actions then
        (case router_Add d of
           Some err \<Rightarrow> (Inl err, [CallHijackRequests, CallRouterAdd ''*'' ''''])
         | None \<Rightarrow>
             (Inr ((newPage pg i pl)\<lparr>hijackRouter :=
                Some \<lparr>router_page = pg, router_patterns = [(''*'', '''')]\<rparr>\<rparr>),
              [CallHijackRequests, CallRouterAdd ''*'' '''', GoRouterRun]))
      else
        (Inr ((newPage pg i pl)\<lparr>hijackNative :=
           Some \<lparr>hijack_page = pg, hijack_pattern =
             Some \<lparr>URLPattern = ''*'', RequestStage = FetchRequestStageResponse\<rparr>\<rparr>\<rparr>),
         [CallNewHijack,
          CallSetPattern \<lparr>URLPattern = ''*'', RequestStage = FetchRequestStageResponse\<rparr>,
          CallHijackStart, GoHijackHandler]))"
proof (cases "containsModificationActions actions")
  case True
  then have "hasModificationRules (newPage pg i pl) \<or> containsModificationActions actions"
    by simp
  from Run_hijack_rule [OF this] True show ?thesis
    by (simp add: page_newPage split: option.splits)
next
  case False
  then have "\<not> (hasModificationRules (newPage pg i pl) \<or> containsModificationActions actions)"
    by (simp add: newPage_no_rules)
  from Run_hijack_native [OF this] False show ?thesis
    by (simp add: page_newPage)
qed

text \<open>What the hijack installation can ask of the driver, and what it starts.\<close>

lemma Run_hijack_installed:
  assumes "Run_hijack d p actions = (Inr createdPage, tr)"
  shows "(GoRouterRun \<in> set tr \<or> GoHijackHandler \<in> set tr)
    \<and> CallRouterStop \<notin> set tr \<and> CallHijackStop \<notin> set tr \<and> CallPageClose \<notin> set tr
    \<and> (\<forall>ua. CallSetUserAgent ua \<notin> set tr)"
  using assms by (auto simp: Run_hijack_def Let_def split: if_splits option.splits)

lemma Run_hijack_failed:
  assumes "Run_hijack d p actions = (Inl err, tr)"
  shows "router_Add d = Some err \<and> tr = [CallHijackRequests, CallRouterAdd ''*'' '''']
    \<and> (hasModificationRules p \<or> containsModificationActions actions)"
  using assms by (auto simp: Run_hijack_def Let_def split: if_splits option.splits)

lemma setup_calls_members:
  "CallRouterStop \<notin> set (setup_calls i) \<and> CallHijackStop \<notin> set (setup_calls i)
   \<and> CallPageClose \<notin> set (setup_calls i) \<and> GoRouterRun \<notin> set (setup_calls i)
   \<and> GoHijackHandler \<notin> set (setup_calls i)
   \<and> (customAgent (browser i) = [] \<longrightarrow> (\<forall>ua. CallSetUserAgent ua \<notin> set (setup_calls i)))"
  by (simp add: setup_calls_def)

text \<open>
  Claim C5. A failing setup step ends \<^verbatim>\<open>Run\<close> at once with that step's error, a nil
  result map and a nil page:
  \<^item> tab creation fails: nothing else is asked of the driver;
  \<^item> a custom agent is configured and setting it fails: the last call is
    \<^verbatim>\<open>SetUserAgent\<close>; with no custom agent configured \<^verbatim>\<open>SetUserAgent\<close> is never called,
    whatever the driver would have answered;
  \<^item> the actions ask for the request-stage router and adding the handler fails: the last
    call is \<^verbatim>\<open>Add\<close>, and the router's loop is not started;
  \<^item> the hijack is installed and the viewport fails: the last call is \<^verbatim>\<open>SetViewport\<close>;
  \<^item> the viewport is set and the extra headers fail: the last call is
    \<^verbatim>\<open>SetExtraHeaders\<close>, and the pipeline is not run.
\<close>

theorem Run_setup_failure:
  "(\<forall>err. engine_Page d = Inl err \<longrightarrow>
      Run d i baseURL actions pl tmo = ((None, None, Some err), [CallEnginePage]))
   \<and> (\<forall>pg err. engine_Page d = Inr pg \<and> customAgent (browser i) \<noteq> []
         \<and> page_SetUserAgent d = Some err \<longrightarrow>
      Run d i baseURL actions pl tmo =
        ((None, None, Some err), [CallEnginePage, CallSetUserAgent (customAgent (browser i))]))
   \<and> (customAgent (browser i) = [] \<longrightarrow>
        (\<forall>ua. CallSetUserAgent ua \<notin> set (snd (Run d i baseURL actions pl tmo))))
   \<and> (\<forall>pg err. engine_Page d = Inr pg
         \<and> (customAgent (browser i) = [] \<or> page_SetUserAgent d = None)
         \<and> containsModificationActions actions \<and> router_Add d = Some err \<longrightarrow>
      Run d i baseURL actions pl tmo =
        ((None, None, Some err),
         setup_calls i @ [CallHijackRequests, CallRouterAdd ''*'' '''']))
   \<and> (\<forall>pg err createdPage tr. engine_Page d = Inr pg
         \<and> (customAgent (browser i) = [] \<or> page_SetUserAgent d = None)
         \<and> Run_hijack d (newPage (Timeout pg tmo) i pl) actions = (Inr createdPage, tr)
         \<and> page_SetViewport d = Some err \<longrightarrow>
      Run d i baseURL actions pl tmo =
        ((None, None, Some err), setup_calls i @ tr @ [CallSetViewport 1 1920 1080]))
   \<and> (\<forall>pg err createdPage tr. engine_Page d = Inr pg
         \<and> (customAgent (browser i) = [] \<or> page_SetUserAgent d = None)
         \<and> Run_hijack d (newPage (Timeout pg tmo) i pl) actions = (Inr createdPage, tr)
         \<and> page_SetViewport d = None \<and> page_SetExtraHeaders d = Some err \<longrightarrow>
      Run d i baseURL actions pl tmo =
        ((None, None, Some err),
         setup_calls i @ tr @ [CallSetViewport 1 1920 1080,
           CallSetExtraHeaders [''Accept-Language'', ''en, en-GB, en-us;'']]))"
proof (intro conjI allI impI)
  fix err
  assume "engine_Page d = Inl err"
  then show "Run d i baseURL actions pl tmo = ((None, None, Some err), [CallEnginePage])"
    by (simp add: Run_def)
next
  fix pg err
  assume "engine_Page d = Inr pg \<and> customAgent (browser i) \<noteq> []
    \<and> page_SetUserAgent d = Some err"
  then show "Run d i baseURL actions pl tmo =
      ((None, None, Some err), [CallEnginePage, CallSetUserAgent (customAgent (browser i))])"
    by (simp add: Run_def Let_def)
next
  fix ua
  assume noagent: "customAgent (browser i) = []"
  show "CallSetUserAgent ua \<notin> set (snd (Run d i baseURL actions pl tmo))"
  proof (cases "engine_Page d")
    case (Inl err)
    then show ?thesis by (simp add: Run_def)
  next
    case (Inr pg)
    have ua_ok: "customAgent (browser i) = [] \<or> page_SetUserAgent d = None"
      using noagent by simp
    have pre: "setup_calls i = [CallEnginePage]"
      using noagent by (simp add: setup_calls_def)
    show ?thesis
      unfolding Run_after_tab [OF Inr ua_ok] Run_hijack_newPage pre
      by (simp split: option.splits prod.splits)
  qed
next
  fix pg err
  assume a: "engine_Page d = Inr pg
    \<and> (customAgent (browser i) = [] \<or> page_SetUserAgent d = None)
    \<and> containsModificationActions actions \<and> router_Add d = Some err"
  then have tab: "engine_Page d = Inr pg"
    and ua_ok: "customAgent (browser i) = [] \<or> page_SetUserAgent d = None"
    by simp_all
  show "Run d i baseURL actions pl tmo =
      ((None, None, Some err), setup_calls i @ [CallHijackRequests, CallRouterAdd ''*'' ''''])"
    unfolding Run_after_tab [OF tab ua_ok] Run_hijack_newPage using a by simp
next
  fix pg err createdPage tr
  assume a: "engine_Page d = Inr pg
    \<and> (customAgent (browser i) = [] \<or> page_SetUserAgent d = None)
    \<and> Run_hijack d (newPage (Timeout pg tmo) i pl) actions = (Inr createdPage, tr)
    \<and> page_SetViewport d = Some err"
  then have tab: "engine_Page d = Inr pg"
    and ua_ok: "customAgent (browser i) = [] \<or> page_SetUserAgent d = None"
    by simp_all
  show "Run d i baseURL actions pl tmo =
      ((None, None, Some err), setup_calls i @ tr @ [CallSetViewport 1 1920 1080])"
    unfolding Run_after_tab [OF tab ua_ok] using a by simp
next
  fix pg err createdPage tr
  assume a: "engine_Page d = Inr pg
    \<and> (customAgent (browser i) = [] \<or> page_SetUserAgent d = None)
    \<and> Run_hijack d (newPage (Timeout pg tmo) i pl) actions = (Inr createdPage, tr)
    \<and> page_SetViewport d = None \<and> page_SetExtraHeaders d = Some err"
  then have tab: "engine_Page d = Inr pg"
    and ua_ok: "customAgent (browser i) = [] \<or> page_SetUserAgent d = None"
    by simp_all
  show "Run d i baseURL actions pl tmo =
      ((None, None, Some err),
       setup_calls i @ tr @ [CallSetViewport 1 1920 1080,
         CallSetExtraHeaders [''Accept-Language'', ''en, en-GB, en-us;'']])"
    unfolding Run_after_tab [OF tab ua_ok] using a by simp
qed

theorem Run_setup_failure_witness:
  "Run driver_no_tab agent_instance ''http://target.example/'' [navigate] no_payloads 5
     = ((None, None, Some (Error ''no tab'')), [CallEnginePage])
   \<and> Run driver_bad_agent agent_instance ''http://target.example/'' [navigate] no_payloads 5
     = ((None, None, Some (Error ''agent'')), [CallEnginePage, CallSetUserAgent ''scanner/1.0''])
   \<and> CallSetUserAgent ''scanner/1.0'' \<notin> set (snd
       (Run driver_bad_agent plain_instance ''http://target.example/'' [navigate] no_payloads 5))
   \<and> Run driver_bad_router agent_instance ''http://target.example/'' [navigate, setheader]
        no_payloads 5
     = ((None, None, Some (Error ''add'')),
        [CallEnginePage, CallSetUserAgent ''scanner/1.0'', CallHijackRequests,
         CallRouterAdd ''*'' ''''])
   \<and> Run driver_bad_viewport plain_instance ''http://target.example/'' [navigate, setheader]
        no_payloads 5
     = ((None, None, Some (Error ''viewport'')),
        [CallEnginePage, CallHijackRequests, CallRouterAdd ''*'' '''', GoRouterRun,
         CallSetViewport 1 1920 1080])
   \<and> Run driver_bad_headers plain_instance ''http://target.example/'' [navigate] no_payloads 5
     = ((None, None, Some (Error ''headers'')),
        [CallEnginePage, CallNewHijack,
         CallSetPattern \<lparr>URLPattern = ''*'', RequestStage = FetchRequestStageResponse\<rparr>,
         CallHijackStart, GoHijackHandler, CallSetViewport 1 1920 1080,
         CallSetExtraHeaders [''Accept-Language'', ''en, en-GB, en-us;'']])"
  using
    Run_setup_failure [of driver_no_tab agent_instance "''http://target.example/''"
      "[navigate]" no_payloads 5]
    Run_setup_failure [of driver_bad_agent agent_instance "''http://target.example/''"
      "[navigate]" no_payloads 5]
    Run_setup_failure [of driver_bad_agent plain_instance "''http://target.example/''"
      "[navigate]" no_payloads 5]
    Run_setup_failure [of driver_bad_router agent_instance "''http://target.example/''"
      "[navigate, setheader]" no_payloads 5]
    Run_setup_failure [of driver_bad_viewport plain_instance "''http://target.example/''"
      "[navigate, setheader]" no_payloads 5]
    Run_setup_failure [of driver_bad_headers plain_instance "''http://target.example/''"
      "[navigate]" no_payloads 5]
  by (simp add: Run_hijack_newPage setup_calls_def driver_no_tab_def driver_bad_agent_def
      driver_bad_router_def driver_bad_viewport_def driver_bad_headers_def driver_ok_def
      agent_instance_def plain_instance_def navigate_def setheader_def)

section \<open>Run: failures after the hijack is installed\<close>

lemma native_session_installed:
  "Run_hijack d (newPage (Timeout tab1 5) plain_instance no_payloads) [navigate] =
     (Inr native_session,
      [CallNewHijack,
       CallSetPattern \<lparr>URLPattern = ''*'', RequestStage = FetchRequestStageResponse\<rparr>,
       CallHijackStart, GoHijackHandler])"
  by (simp add: Run_hijack_newPage native_session_def navigate_def)

lemma router_session_installed:
  "router_Add d = None \<Longrightarrow>
   Run_hijack d (newPage (Timeout tab1 5) plain_instance no_payloads) [navigate, setheader] =
     (Inr router_session, [CallHijackRequests, CallRouterAdd ''*'' '''', GoRouterRun])"
  by (simp add: Run_hijack_newPage router_session_def navigate_def setheader_def)

text \<open>
  Claim C2, as stated: when the pipeline fails after the page was built, the caller still
  receives the page, so that the history collected so far can be dumped. It fails: with
  a pipeline that records one exchange on the page and then fails, the page holds that
  exchange, and \<^verbatim>\<open>Run\<close> returns the error with a nil map and a nil page.
\<close>

theorem Run_pipeline_failure_counterexample:
  "fst (Run_hijack driver_bad_pipeline (newPage (Timeout tab1 5) plain_instance no_payloads)
       [navigate]) = Inr native_session
   \<and> fst (DumpHistory (fst (ExecuteActions driver_bad_pipeline native_session
       ''http://target.example/'' [navigate]))) = ''GET / HTTP/1.1HTTP/1.1 200 OK''
   \<and> Run driver_bad_pipeline plain_instance ''http://target.example/'' [navigate] no_payloads 5
     = ((None, None, Some (Error ''action failed'')),
        [CallEnginePage, CallNewHijack,
         CallSetPattern \<lparr>URLPattern = ''*'', RequestStage = FetchRequestStageResponse\<rparr>,
         CallHijackStart, GoHijackHandler, CallSetViewport 1 1920 1080,
         CallSetExtraHeaders [''Accept-Language'', ''en, en-GB, en-us;''],
         CallExecuteActions ''http://target.example/'' [navigate]])"
proof -
  have tab: "engine_Page driver_bad_pipeline = Inr tab1"
    by (simp add: driver_bad_pipeline_def driver_ok_def)
  have ua_ok: "customAgent (browser plain_instance) = []
      \<or> page_SetUserAgent driver_bad_pipeline = None"
    by (simp add: plain_instance_def)
  have dump: "fst (DumpHistory (fst (ExecuteActions driver_bad_pipeline native_session
       ''http://target.example/'' [navigate]))) = ''GET / HTTP/1.1HTTP/1.1 200 OK''"
    by (simp add: driver_bad_pipeline_def driver_ok_def pipeline_fails_def addToHistory_def
        DumpHistory_def native_session_def newPage_def exchange1_def)
  have run: "Run driver_bad_pipeline plain_instance ''http://target.example/'' [navigate]
      no_payloads 5
     = ((None, None, Some (Error ''action failed'')),
        [CallEnginePage, CallNewHijack,
         CallSetPattern \<lparr>URLPattern = ''*'', RequestStage = FetchRequestStageResponse\<rparr>,
         CallHijackStart, GoHijackHandler, CallSetViewport 1 1920 1080,
         CallSetExtraHeaders [''Accept-Language'', ''en, en-GB, en-us;''],
         CallExecuteActions ''http://target.example/'' [navigate]])"
    unfolding Run_after_tab [OF tab ua_ok] native_session_installed
    by (simp add: driver_bad_pipeline_def driver_ok_def pipeline_fails_def setup_calls_def
        plain_instance_def)
  show ?thesis
    using dump run by (simp add: native_session_installed)
qed

text \<open>
  Claim C2, amended. When tab, user agent, hijack, viewport and extra headers all
  succeeded and the pipeline, run on the page so built, fails, \<^verbatim>\<open>Run\<close> returns the
  pipeline's error with a nil result map and a nil page: the page, and whatever history
  the pipeline left on it, is not handed to the caller. The pipeline is the last thing
  \<^verbatim>\<open>Run\<close> asks for.
\<close>

theorem Run_pipeline_failure:
  assumes "engine_Page d = Inr pg"
    and "customAgent (browser i) = [] \<or> page_SetUserAgent d = None"
    and "Run_hijack d (newPage (Timeout pg tmo) i pl) actions = (Inr createdPage, tr)"
    and "page_SetViewport d = None"
    and "page_SetExtraHeaders d = None"
    and "ExecuteActions d createdPage baseURL actions = (createdPage', data, Some err)"
  shows "Run d i baseURL actions pl tmo =
    ((None, None, Some err),
     setup_calls i @ tr @ [CallSetViewport 1 1920 1080,
       CallSetExtraHeaders [''Accept-Language'', ''en, en-GB, en-us;''],
       CallExecuteActions baseURL actions])"
  unfolding Run_after_tab [OF assms(1,2)] using assms(3-6) by simp

theorem Run_pipeline_failure_witness:
  "Run driver_bad_pipeline plain_instance ''http://target.example/'' [navigate, setheader]
      no_payloads 5
     = ((None, None, Some (Error ''action failed'')),
        [CallEnginePage, CallHijackRequests, CallRouterAdd ''*'' '''', GoRouterRun,
         CallSetViewport 1 1920 1080,
         CallSetExtraHeaders [''Accept-Language'', ''en, en-GB, en-us;''],
         CallExecuteActions ''http://target.example/'' [navigate, setheader]])"
proof -
  have tab: "engine_Page driver_bad_pipeline = Inr tab1"
    by (simp add: driver_bad_pipeline_def driver_ok_def)
  have ua_ok: "customAgent (browser plain_instance) = []
      \<or> page_SetUserAgent driver_bad_pipeline = None"
    by (simp add: plain_instance_def)
  have add_ok: "router_Add driver_bad_pipeline = None"
    by (simp add: driver_bad_pipeline_def driver_ok_def)
  have viewport_ok: "page_SetViewport driver_bad_pipeline = None"
    by (simp add: driver_bad_pipeline_def driver_ok_def)
  have headers_ok: "page_SetExtraHeaders driver_bad_pipeline = None"
    by (simp add: driver_bad_pipeline_def driver_ok_def)
  have failed: "ExecuteActions driver_bad_pipeline router_session ''http://target.example/''
      [navigate, setheader]
    = (addToHistory router_session [exchange1], None, Some (Error ''action failed''))"
    by (simp add: driver_bad_pipeline_def driver_ok_def pipeline_fails_def)
  from Run_pipeline_failure [OF tab ua_ok router_session_installed [OF add_ok] viewport_ok
      headers_ok failed]
  show ?thesis
    by (simp add: setup_calls_def plain_instance_def)
qed

text \<open>
  \<^verbatim>\<open>Run\<close> contains no call of either \<^verbatim>\<open>Stop\<close> and no call of \<^verbatim>\<open>page.Close\<close>.
\<close>

lemma Run_never_stops:
  "CallRouterStop \<notin> set (snd (Run d i baseURL actions pl tmo))
   \<and> CallHijackStop \<notin> set (snd (Run d i baseURL actions pl tmo))
   \<and> CallPageClose \<notin> set (snd (Run d i baseURL actions pl tmo))"
proof (cases "engine_Page d")
  case (Inl err)
  then show ?thesis by (simp add: Run_def)
next
  case (Inr pg)
  show ?thesis
  proof (cases "customAgent (browser i) = [] \<or> page_SetUserAgent d = None")
    case True
    show ?thesis
      unfolding Run_after_tab [OF Inr True] Run_hijack_newPage
      by (simp add: setup_calls_def split: option.splits prod.splits)
  next
    case False
    with Inr show ?thesis
      by (auto simp: Run_def Let_def)
  qed
qed

text \<open>
  Claim C3, as stated: a \<^verbatim>\<open>Run\<close> that fails after the hijack was installed stops it
  before returning. It fails: when the viewport cannot be set, the native loop has been
  started, \<^verbatim>\<open>SetViewport\<close> is the last call, and the caller gets the error and no page
  on which to call \<^verbatim>\<open>Close\<close>.
\<close>

theorem Run_failure_stops_hijack_counterexample:
  "Run driver_bad_viewport plain_instance ''http://target.example/'' [navigate] no_payloads 5
     = ((None, None, Some (Error ''viewport'')),
        [CallEnginePage, CallNewHijack,
         CallSetPattern \<lparr>URLPattern = ''*'', RequestStage = FetchRequestStageResponse\<rparr>,
         CallHijackStart, GoHijackHandler, CallSetViewport 1 1920 1080])
   \<and> CallHijackStop \<notin> set (snd (Run driver_bad_viewport plain_instance
        ''http://target.example/'' [navigate] no_payloads 5))"
proof -
  have tab: "engine_Page driver_bad_viewport = Inr tab1"
    by (simp add: driver_bad_viewport_def driver_ok_def)
  have ua_ok: "customAgent (browser plain_instance) = []
      \<or> page_SetUserAgent driver_bad_viewport = None"
    by (simp add: plain_instance_def)
  have run: "Run driver_bad_viewport plain_instance ''http://target.example/'' [navigate]
      no_payloads 5
     = ((None, None, Some (Error ''viewport'')),
        [CallEnginePage, CallNewHijack,
         CallSetPattern \<lparr>URLPattern = ''*'', RequestStage = FetchRequestStageResponse\<rparr>,
         CallHijackStart, GoHijackHandler, CallSetViewport 1 1920 1080])"
    unfolding Run_after_tab [OF tab ua_ok] native_session_installed
    by (simp add: driver_bad_viewport_def driver_ok_def setup_calls_def plain_instance_def)
  show ?thesis
    unfolding run by simp
qed

text \<open>
  Claim C3, amended. When \<^verbatim>\<open>Run\<close> fails after the hijack was installed (the viewport,
  the extra headers or the pipeline fails), it returns the error with a nil result map
  and a nil page; the background loop was started (\<^verbatim>\<open>go hijackRouter.Run()\<close> or the
  native handler's goroutine), and \<^verbatim>\<open>Run\<close> calls neither \<^verbatim>\<open>Stop\<close> nor \<^verbatim>\<open>page.Close\<close>:
  the installed hijack is left running.
\<close>

theorem Run_failure_leaves_hijack_running:
  assumes "engine_Page d = Inr pg"
    and "customAgent (browser i) = [] \<or> page_SetUserAgent d = None"
    and "Run_hijack d (newPage (Timeout pg tmo) i pl) actions = (Inr createdPage, tr)"
    and "page_SetViewport d \<noteq> None \<or> page_SetExtraHeaders d \<noteq> None
         \<or> snd (snd (ExecuteActions d createdPage baseURL actions)) \<noteq> None"
  shows "(\<exists>err. fst (Run d i baseURL actions pl tmo) = (None, None, Some err))
    \<and> (GoRouterRun \<in> set (snd (Run d i baseURL actions pl tmo))
       \<or> GoHijackHandler \<in> set (snd (Run d i baseURL actions pl tmo)))
    \<and> CallRouterStop \<notin> set (snd (Run d i baseURL actions pl tmo))
    \<and> CallHijackStop \<notin> set (snd (Run d i baseURL actions pl tmo))
    \<and> CallPageClose \<notin> set (snd (Run d i baseURL actions pl tmo))"
proof -
  have started: "GoRouterRun \<in> set tr \<or> GoHijackHandler \<in> set tr"
    using Run_hijack_installed [OF assms(3)] by simp
  have failed: "\<exists>err. fst (Run d i baseURL actions pl tmo) = (None, None, Some err)"
    unfolding Run_after_tab [OF assms(1,2)] using assms(3,4)
    by (auto split: option.splits prod.splits)
  have running: "GoRouterRun \<in> set (snd (Run d i baseURL actions pl tmo))
       \<or> GoHijackHandler \<in> set (snd (Run d i baseURL actions pl tmo))"
    unfolding Run_after_tab [OF assms(1,2)] using assms(3) started
    by (auto split: option.splits prod.splits)
  from failed running Run_never_stops [of d i baseURL actions pl tmo] show ?thesis
    by simp
qed

theorem Run_failure_leaves_hijack_running_witness:
  "fst (Run driver_bad_headers plain_instance ''http://target.example/'' [navigate, setheader]
      no_payloads 5) = (None, None, Some (Error ''headers''))
   \<and> GoRouterRun \<in> set (snd (Run driver_bad_headers plain_instance ''http://target.example/''
        [navigate, setheader] no_payloads 5))
   \<and> CallRouterStop \<notin> set (snd (Run driver_bad_headers plain_instance
        ''http://target.example/'' [navigate, setheader] no_payloads 5))
   \<and> CallPageClose \<notin> set (snd (Run driver_bad_headers plain_instance
        ''http://target.example/'' [navigate, setheader] no_payloads 5))"
proof -
  have tab: "engine_Page driver_bad_headers = Inr tab1"
    by (simp add: driver_bad_headers_def driver_ok_def)
  have ua_ok: "customAgent (browser plain_instance) = []
      \<or> page_SetUserAgent driver_bad_headers = None"
    by (simp add: plain_instance_def)
  have add_ok: "router_Add driver_bad_headers = None"
    by (simp add: driver_bad_headers_def driver_ok_def)
  have fails: "page_SetViewport driver_bad_headers \<noteq> None
      \<or> page_SetExtraHeaders driver_bad_headers \<noteq> None
      \<or> snd (snd (ExecuteActions driver_bad_headers router_session ''http://target.example/''
           [navigate, setheader])) \<noteq> None"
    by (simp add: driver_bad_headers_def driver_ok_def)
  have run: "Run driver_bad_headers plain_instance ''http://target.example/''
      [navigate, setheader] no_payloads 5
     = ((None, None, Some (Error ''headers'')),
        [CallEnginePage, CallHijackRequests, CallRouterAdd ''*'' '''', GoRouterRun,
         CallSetViewport 1 1920 1080,
         CallSetExtraHeaders [''Accept-Language'', ''en, en-GB, en-us;'']])"
    unfolding Run_after_tab [OF tab ua_ok] router_session_installed [OF add_ok]
    by (simp add: driver_bad_headers_def driver_ok_def setup_calls_def plain_instance_def)
  from Run_failure_leaves_hijack_running [OF tab ua_ok router_session_installed [OF add_ok] fails]
  show ?thesis
    unfolding run by simp
qed

text \<open>
  Claim C9. The page \<^verbatim>\<open>Run\<close> builds has no rules, and nothing adds one before the
  decision, so \<^verbatim>\<open>hasModificationRules\<close> is false there and the decision is
  \<^verbatim>\<open>containsModificationActions\<close> of the supplied actions alone: whenever the tab was
  created and the user agent did not fail, \<^verbatim>\<open>Run\<close> asks for the request-stage router
  exactly when the actions contain a mutating action type, and for the native hijack
  exactly when they do not.
\<close>

theorem Run_decides_from_actions_alone:
  "rules (newPage pg i pl) = []
   \<and> \<not> hasModificationRules (newPage pg i pl)
   \<and> ((hasModificationRules (newPage pg i pl) \<or> containsModificationActions actions)
        \<longleftrightarrow> containsModificationActions actions)
   \<and> (\<forall>pg0. engine_Page d = Inr pg0
         \<and> (customAgent (browser i) = [] \<or> page_SetUserAgent d = None) \<longrightarrow>
       (CallHijackRequests \<in> set (snd (Run d i baseURL actions pl tmo))
          \<longleftrightarrow> containsModificationActions actions)
       \<and> (CallNewHijack \<in> set (snd (Run d i baseURL actions pl tmo))
          \<longleftrightarrow> \<not> containsModificationActions actions))"
proof (intro conjI allI impI)
  show "rules (newPage pg i pl) = []"
    by (simp add: newPage_def)
  show "\<not> hasModificationRules (newPage pg i pl)"
    by (rule newPage_no_rules)
  show "(hasModificationRules (newPage pg i pl) \<or> containsModificationActions actions)
        \<longleftrightarrow> containsModificationActions actions"
    by (simp add: newPage_no_rules)
next
  fix pg0
  assume a: "engine_Page d = Inr pg0
    \<and> (customAgent (browser i) = [] \<or> page_SetUserAgent d = None)"
  then have tab: "engine_Page d = Inr pg0"
    and ua_ok: "customAgent (browser i) = [] \<or> page_SetUserAgent d = None"
    by simp_all
  show "CallHijackRequests \<in> set (snd (Run d i baseURL actions pl tmo))
      \<longleftrightarrow> containsModificationActions actions"
    unfolding Run_after_tab [OF tab ua_ok] Run_hijack_newPage
    by (simp add: setup_calls_def split: option.splits prod.splits)
  show "CallNewHijack \<in> set (snd (Run d i baseURL actions pl tmo))
      \<longleftrightarrow> \<not> containsModificationActions actions"
    unfolding Run_after_tab [OF tab ua_ok] Run_hijack_newPage
    by (simp add: setup_calls_def split: option.splits prod.splits)
qed

theorem Run_decides_from_actions_alone_witness:
  "engine_Page driver_ok = Inr tab1
   \<and> CallHijackRequests \<notin> set (snd (Run driver_ok agent_instance ''http://target.example/''
        [navigate] no_payloads 5))
   \<and> CallNewHijack \<in> set (snd (Run driver_ok agent_instance ''http://target.example/''
        [navigate] no_payloads 5))
   \<and> CallHijackRequests \<in> set (snd (Run driver_ok agent_instance ''http://target.example/''
        [setheader] no_payloads 5))
   \<and> CallNewHijack \<notin> set (snd (Run driver_ok agent_instance ''http://target.example/''
        [setheader] no_payloads 5))"
  using
    Run_decides_from_actions_alone [of tab1 agent_instance no_payloads "[navigate]" driver_ok
      "''http://target.example/''" 5]
    Run_decides_from_actions_alone [of tab1 agent_instance no_payloads "[setheader]" driver_ok
      "''http://target.example/''" 5]
  by (simp add: driver_ok_def navigate_def setheader_def)

section \<open>Close\<close>

lemma Close_calls:
  "Close d p =
     (p, (if hijackRouter p = None then [] else [CallRouterStop])
         @ (if hijackNative p = None then [] else [CallHijackStop]) @ [CallPageClose])"
  by (simp add: Close_def split: option.splits)

lemma Close_repeat_calls:
  "Close_repeat ds p =
     (p, concat (replicate (length ds)
           ((if hijackRouter p = None then [] else [CallRouterStop])
            @ (if hijackNative p = None then [] else [CallHijackStop]) @ [CallPageClose])))"
proof (induction ds)
  case Nil
  show ?case by simp
next
  case (Cons d ds)
  then show ?case
    by (simp add: Close_calls)
qed

text \<open>
  Claim C4. \<^verbatim>\<open>Close\<close> returns for every page and every answer of the driver, and has no
  error to return. It stops the request-stage router if the page holds one, then the
  native hijack if the page holds one, and closes the tab last; with neither handle it
  only closes the tab. What \<^verbatim>\<open>Stop\<close> and \<^verbatim>\<open>page.Close\<close> answer changes nothing: a driver
  whose teardown calls all fail gives the same result. \<^verbatim>\<open>Close\<close> writes no field of the
  page, so it can be called again, any number of times in a row, and each call does the
  same as the first.
\<close>

theorem Close_total_idempotent:
  "Close d p =
     (p, (if hijackRouter p = None then [] else [CallRouterStop])
         @ (if hijackNative p = None then [] else [CallHijackStop]) @ [CallPageClose])
   \<and> Close d' p = Close d p
   \<and> Close d' (fst (Close d p)) = Close d p
   \<and> fst (Close_repeat ds p) = p
   \<and> snd (Close_repeat ds p) = concat (replicate (length ds) (snd (Close d p)))"
  by (simp add: Close_calls Close_repeat_calls)

theorem Close_total_idempotent_witness:
  "Close driver_failing_teardown router_session = (router_session, [CallRouterStop, CallPageClose])
   \<and> Close driver_ok native_session = (native_session, [CallHijackStop, CallPageClose])
   \<and> Close driver_failing_teardown session1 = (session1, [CallPageClose])
   \<and> Close_repeat [driver_ok, driver_failing_teardown, driver_failing_teardown] native_session
     = (native_session,
        [CallHijackStop, CallPageClose, CallHijackStop, CallPageClose, CallHijackStop,
         CallPageClose])"
proof -
  have handles: "hijackRouter router_session \<noteq> None \<and> hijackNative router_session = None
      \<and> hijackRouter native_session = None \<and> hijackNative native_session \<noteq> None
      \<and> hijackRouter session1 = None \<and> hijackNative session1 = None"
    by (simp add: router_session_def native_session_def session1_def newPage_def)
  have three: "replicate (length [driver_ok, driver_failing_teardown, driver_failing_teardown])
      [CallHijackStop, CallPageClose]
    = [[CallHijackStop, CallPageClose], [CallHijackStop, CallPageClose],
       [CallHijackStop, CallPageClose]]"
    by (simp add: numeral_3_eq_3)
  from handles three
    Close_total_idempotent [of driver_failing_teardown router_session driver_ok "[]"]
    Close_total_idempotent [of driver_ok native_session driver_failing_teardown
      "[driver_ok, driver_failing_teardown, driver_failing_teardown]"]
    Close_total_idempotent [of driver_failing_teardown session1 driver_ok "[]"]
  show ?thesis
    by (simp add: prod_eq_iff)
qed

section \<open>The ledgers and the page accessors\<close>

lemma DumpHistory_loop_append:
  "DumpHistory_loop hs acc = acc @ concat (map (\<lambda>h. RawRequest h @ RawResponse h) hs)"
  by (induction hs arbitrary: acc) simp_all

text \<open>
  Claim C6. For every page, whatever its history holds, \<^verbatim>\<open>DumpHistory\<close> returns the
  entries' texts joined in the order of the history, each entry giving its raw request
  immediately followed by its raw response, and nothing else; for an empty history this
  is the empty string.
\<close>

theorem DumpHistory_is_concatenation:
  "fst (DumpHistory p) = concat (map (\<lambda>h. RawRequest h @ RawResponse h) (History p))"
  by (simp add: DumpHistory_def DumpHistory_loop_append)

lemma DumpHistory_example:
  "fst (DumpHistory session1) =
     ''GET / HTTP/1.1HTTP/1.1 200 OKGET /a HTTP/1.1HTTP/1.1 404 Not Found''
   \<and> fst (DumpHistory (newPage tab1 plain_instance no_payloads)) = ''''"
  by (simp add: DumpHistory_def session1_def newPage_def exchange1_def exchange2_def)

lemma perform_History_prefix: "prefix (History p) (History (perform c p))"
  by (cases c) (simp_all add: DumpHistory_def addToHistory_def addInteractshURL_def URL_def
      Close_def split: sum.splits)

lemma perform_InteractshURLs_prefix: "prefix (InteractshURLs p) (InteractshURLs (perform c p))"
  by (cases c) (simp_all add: DumpHistory_def addToHistory_def addInteractshURL_def URL_def
      Close_def split: sum.splits)

lemma perform_all_History_prefix: "prefix (History p) (History (perform_all cs p))"
proof (induction cs arbitrary: p)
  case Nil
  show ?case by simp
next
  case (Cons c cs)
  have "prefix (History p) (History (perform c p))"
    by (rule perform_History_prefix)
  also have "prefix (History (perform c p)) (History (perform_all cs (perform c p)))"
    by (rule Cons.IH)
  finally show ?case by simp
qed

lemma perform_all_InteractshURLs_prefix:
  "prefix (InteractshURLs p) (InteractshURLs (perform_all cs p))"
proof (induction cs arbitrary: p)
  case Nil
  show ?case by simp
next
  case (Cons c cs)
  have "prefix (InteractshURLs p) (InteractshURLs (perform c p))"
    by (rule perform_InteractshURLs_prefix)
  also have "prefix (InteractshURLs (perform c p))
      (InteractshURLs (perform_all cs (perform c p)))"
    by (rule Cons.IH)
  finally show ?case by simp
qed

text \<open>
  Claim C7. Both ledgers are append-only. \<^verbatim>\<open>addToHistory\<close> leaves a history that is the
  old history followed by exactly the given entries in argument order, and
  \<^verbatim>\<open>addInteractshURL\<close> does the same for the interactsh URLs. After any sequence of
  calls of the page's methods (\<^verbatim>\<open>DumpHistory\<close>, \<^verbatim>\<open>addToHistory\<close>, \<^verbatim>\<open>addInteractshURL\<close>,
  \<^verbatim>\<open>URL\<close>, \<^verbatim>\<open>Close\<close>) the ledger the page started with is a prefix of the ledger it
  has: nothing was reordered, changed or removed.
\<close>

theorem ledgers_append_only:
  "History (addToHistory p historyData) = History p @ historyData
   \<and> InteractshURLs (addInteractshURL p URLs) = InteractshURLs p @ URLs
   \<and> prefix (History p) (History (perform_all cs p))
   \<and> prefix (InteractshURLs p) (InteractshURLs (perform_all cs p))"
  by (simp add: addToHistory_def addInteractshURL_def perform_all_History_prefix
      perform_all_InteractshURLs_prefix)

lemma ledgers_example:
  "History (perform_all [DoAddToHistory [exchange2], DoDumpHistory, DoClose driver_ok,
       DoAddInteractshURL [''x.oast.example'', ''y.oast.example''], DoURL driver_ok,
       DoAddToHistory [exchange1, exchange1]] session1)
     = [exchange1, exchange2, exchange2, exchange1, exchange1]
   \<and> InteractshURLs (perform_all [DoAddToHistory [exchange2], DoDumpHistory, DoClose driver_ok,
       DoAddInteractshURL [''x.oast.example'', ''y.oast.example''], DoURL driver_ok,
       DoAddToHistory [exchange1, exchange1]] session1)
     = [''abc.oast.example'', ''x.oast.example'', ''y.oast.example'']"
  by (simp add: session1_def newPage_def DumpHistory_def addToHistory_def addInteractshURL_def
      URL_def Close_def driver_ok_def)

text \<open>
  Claim C10. \<^verbatim>\<open>DumpHistory\<close> leaves the page as it found it. \<^verbatim>\<open>addToHistory\<close> writes
  the \<^verbatim>\<open>History\<close> field and no other: the tab handle, the rules, the instance, both
  hijack handles, the mutex, the interactsh URLs and the payloads are unchanged.
  \<^verbatim>\<open>addInteractshURL\<close> writes the \<^verbatim>\<open>InteractshURLs\<close> field and no other.
\<close>

theorem ledger_frames:
  "snd (DumpHistory p) = p
   \<and> addToHistory p historyData = p\<lparr>History := History p @ historyData\<rparr>
   \<and> page (addToHistory p historyData) = page p
   \<and> rules (addToHistory p historyData) = rules p
   \<and> inst (addToHistory p historyData) = inst p
   \<and> hijackRouter (addToHistory p historyData) = hijackRouter p
   \<and> hijackNative (addToHistory p historyData) = hijackNative p
   \<and> mutex (addToHistory p historyData) = mutex p
   \<and> InteractshURLs (addToHistory p historyData) = InteractshURLs p
   \<and> payloads (addToHistory p historyData) = payloads p
   \<and> addInteractshURL p URLs = p\<lparr>InteractshURLs := InteractshURLs p @ URLs\<rparr>
   \<and> page (addInteractshURL p URLs) = page p
   \<and> rules (addInteractshURL p URLs) = rules p
   \<and> inst (addInteractshURL p URLs) = inst p
   \<and> hijackRouter (addInteractshURL p URLs) = hijackRouter p
   \<and> hijackNative (addInteractshURL p URLs) = hijackNative p
   \<and> mutex (addInteractshURL p URLs) = mutex p
   \<and> History (addInteractshURL p URLs) = History p
   \<and> payloads (addInteractshURL p URLs) = payloads p"
  by (simp add: DumpHistory_def addToHistory_def addInteractshURL_def)

text \<open>
  Claim C8. When the page-info lookup fails, \<^verbatim>\<open>URL\<close> returns the empty string (its
  result is a string: there is no error to hand on); when the lookup succeeds it returns
  the URL of the page info. The page is unchanged either way.
\<close>

theorem URL_best_effort:
  "(\<forall>err. page_Info d = Inl err \<longrightarrow> URL d p = ('''', p))
   \<and> (\<forall>info. page_Info d = Inr info \<longrightarrow> URL d p = (TargetInfo.URL info, p))"
  by (simp add: URL_def)

theorem URL_best_effort_witness:
  "page_Info driver_failing_teardown = Inl (Error ''no target'')
   \<and> URL driver_failing_teardown session1 = ('''', session1)
   \<and> fst (URL driver_ok session1) = ''http://target.example/''"
  using URL_best_effort [of driver_failing_teardown session1] URL_best_effort [of driver_ok session1]
  by (simp add: driver_failing_teardown_def driver_ok_def)

end
